theory Spec2Isabelle
  imports Main "HOL-Library.Sublist"
begin

section \<open>The placeholder page served by main.py\<close>

text \<open>
  The program is one module:
  \<^verbatim>\<open>
  app = Flask(__name__)

  @app.route("/")
  def home():
      return render_template_string(""" ... """)

  if __name__ == "__main__":
      app.run(debug=True)
  \<close>
  The module builds an application object, registers one view function and returns a
  string literal from it. Everything that happens between an HTTP request and the call of
  \<open>home\<close>, and between the string it returns and the HTTP response, is done by the
  libraries the module imports (Flask, Werkzeug, Jinja2). Their code is not part of the
  repository. The calls the module makes into them are modelled below from the libraries'
  documented behaviour; the text before each definition says what it stands for. The
  model is the application object as a function from requests to responses, the
  interface that the framework's test client drives.

  Kept: the URL map with the rule that the application object registers for static files
  and the rule of the module, the router's treatment of leading, missing and doubled
  slashes (as in Werkzeug 2.2 and later), the 404 and 405 routing errors and the 308
  redirect, automatic OPTIONS and HEAD, the application context that rendering needs, the
  default status and content type of a response made from a string, and the template
  lexer's treatment of a source without template delimiters.

  Left out: variable parts of rules other than the trailing path converter of the static
  rule, the serving of files (the repository has no static folder), registration
  conflicts, request hooks and error handlers (the module registers none), the body of
  the library's error pages and redirects, the evaluation of template expressions, and
  the development server with its debugger and reloader.
\<close>

subsection \<open>Requests and responses\<close>

text \<open>
  A request as the application receives it: \<open>request_method\<close> is the upper-cased
  request method and \<open>path\<close> the path of the request (the PATH_INFO of the
  gateway interface), without the query string. Neither the query string nor the headers
  take part in routing.
\<close>

record request =
  request_method :: string
  path :: string
  query_string :: string
  headers :: "(string \<times> string) list"

record response =
  status :: nat
  mimetype :: string
  allow :: "string set"
  data :: string

text \<open>The HTTP exceptions that routing and view calls can end in (Werkzeug's), the
  redirect with the path it points to.\<close>

datatype http_exception =
    NotFound
  | MethodNotAllowed "string set"
  | RequestRedirect string
  | InternalServerError

fun code :: "http_exception \<Rightarrow> nat" where
  "code NotFound = 404"
| "code (MethodNotAllowed valid_methods) = 405"
| "code (RequestRedirect new_path) = 308"
| "code InternalServerError = 500"

text \<open>
  What the application hands back for a request: a response object, or the library's
  default response for an HTTP exception, of which only the exception is recorded.
\<close>

datatype reply =
    Response response
  | Error_Page http_exception

fun status_code :: "reply \<Rightarrow> nat" where
  "status_code (Response resp) = status resp"
| "status_code (Error_Page e) = code e"

text \<open>The Content-Type header of a response: the media type, with the charset for
  text types, XML types and a few application types (Werkzeug's \<open>get_content_type\<close>).\<close>

definition charset_mimetypes :: "string list" where
  "charset_mimetypes =
     [''application/ecmascript'', ''application/javascript'', ''application/sql'',
      ''application/xml'', ''application/xml-dtd'',
      ''application/xml-external-parsed-entity'']"

definition content_type :: "response \<Rightarrow> string" where
  "content_type resp =
     (if prefix ''text/'' (mimetype resp) \<or> mimetype resp \<in> set charset_mimetypes \<or>
         suffix ''+xml'' (mimetype resp)
      then mimetype resp @ ''; charset=utf-8''
      else mimetype resp)"

subsection \<open>Rendering a template source\<close>

text \<open>
  The template lexer first splits the source at every line end (CR LF, CR or LF), drops
  the last piece when it is empty (the option \<open>keep_trailing_newline\<close> is off) and
  joins the pieces with LF. A source in which none of the delimiters for blocks, variables
  and comments occurs is then one data token, which rendering emits as it is.
\<close>

definition LF :: char where
  "LF = CHR 0x0A"

definition CR :: char where
  "CR = CHR 0x0D"

fun cons_first :: "char \<Rightarrow> string list \<Rightarrow> string list" where
  "cons_first c [] = [[c]]"
| "cons_first c (l # ls) = (c # l) # ls"

fun newline_split :: "string \<Rightarrow> string list" where
  "newline_split [] = [[]]"
| "newline_split [c] = (if c = CR \<or> c = LF then [[], []] else [[c]])"
| "newline_split (c # d # cs) =
     (if c = CR \<and> d = LF then [] # newline_split cs
      else if c = CR \<or> c = LF then [] # newline_split (d # cs)
      else cons_first c (newline_split (d # cs)))"

fun join_lines :: "string list \<Rightarrow> string" where
  "join_lines [] = []"
| "join_lines [l] = l"
| "join_lines (l # m # ls) = l @ LF # join_lines (m # ls)"

definition preprocess :: "string \<Rightarrow> string" where
  "preprocess source =
     (let lines = newline_split source
      in join_lines (if last lines = [] then butlast lines else lines))"

definition uses_template_syntax :: "string \<Rightarrow> bool" where
  "uses_template_syntax source =
     (sublist ''{{'' source \<or> sublist ''{%'' source \<or> sublist ''{#'' source)"

text \<open>
  What a call can raise: the RuntimeError of a call that needs the current application
  outside an application context, and an HTTP exception raised by a view. Evaluating
  blocks, variables and comments is outside this development: a source that contains a
  delimiter is answered with an error value of its own instead of an invented output.
\<close>

datatype exception =
    RuntimeError
  | HTTPException http_exception
  | Template_Syntax_Not_Modelled

text \<open>
  \<open>render_template_string source\<close> is what the call returns once it has found the
  current application; looking that up is the first thing the call does, and it is
  \<open>current_app\<close> below.
\<close>

definition render_template_string :: "string \<Rightarrow> exception + string" where
  "render_template_string source =
     (if uses_template_syntax source then Inl Template_Syntax_Not_Modelled
      else Inr (preprocess source))"

subsection \<open>The application object\<close>

record rule =
  rule_path :: string
  endpoint :: string
  methods :: "string set"
  provide_automatic_options :: bool

text \<open>The view functions of the application object: the one for static files that the
  object brings along, and the one that the module defines.\<close>

datatype view_func = View_static | View_home

record flask =
  import_name :: string
  url_map :: "rule list"
  view_functions :: "string \<rightharpoonup> view_func"
  debug :: bool

text \<open>
  \<open>add_url_rule\<close> without options. The methods default to GET; OPTIONS is added
  because the application answers it by itself, and the rule adds HEAD wherever GET is
  allowed.
\<close>

definition add_url_rule :: "string \<Rightarrow> string \<Rightarrow> view_func \<Rightarrow> flask \<Rightarrow> flask" where
  "add_url_rule rule_string name f a =
     a\<lparr>url_map := url_map a @
          [\<lparr>rule_path = rule_string, endpoint = name,
            methods = {''GET''} \<union> {''OPTIONS''} \<union> {''HEAD''},
            provide_automatic_options = True\<rparr>],
       view_functions := (view_functions a)(name \<mapsto> f)\<rparr>"

text \<open>
  The constructor. The static folder defaults to \<open>static\<close>, so the new object
  registers the rule for static files, whether or not such a folder exists.
\<close>

definition Flask :: "string \<Rightarrow> flask" where
  "Flask name =
     add_url_rule ''/static/<path:filename>'' ''static'' View_static
       \<lparr>import_name = name, url_map = [], view_functions = Map.empty, debug = False\<rparr>"

text \<open>
  The decorator \<open>app.route(rule)\<close> as the module uses it, without options: it
  registers the decorated function under its own name.
\<close>

definition route :: "string \<Rightarrow> string \<Rightarrow> view_func \<Rightarrow> flask \<Rightarrow> flask" where
  "route rule_string name f a = add_url_rule rule_string name f a"

subsection \<open>The module\<close>

text \<open>The string literal of \<open>home\<close>: it starts with a line end and ends with the
  eight blanks before the closing quotes.\<close>

definition template :: string where
  "template =
     LF # ''        <!doctype html>'' @
     LF # ''        <title>Social Contract App</title>'' @
     LF # ''        <h1>Social Contract App</h1>'' @
     LF # ''        <p>Build your features here.</p>'' @
     LF # ''        ''"

text \<open>
  The context in which a function is called: none, an application context, or the context
  of a request, which includes an application context. The dispatcher calls a view in the
  context of the request it serves; other code can call it anywhere.
\<close>

datatype call_context = No_Context | App_Context | Request_Context request

text \<open>The proxy \<open>current_app\<close>: the application of the context, if there is one.\<close>

fun current_app :: "flask \<Rightarrow> call_context \<Rightarrow> exception + flask" where
  "current_app a No_Context = Inl RuntimeError"
| "current_app a App_Context = Inr a"
| "current_app a (Request_Context r) = Inr a"

text \<open>
  \<open>home()\<close> has no parameters. A view function can still reach the application object
  and the current request through globals and the context, so the embedding of a view
  function receives both and returns the application object it leaves behind. \<open>home\<close>
  calls \<open>render_template_string\<close>, which needs the current application and nothing
  else from either.
\<close>

definition home :: "flask \<Rightarrow> call_context \<Rightarrow> flask \<times> (exception + string)" where
  "home a ctx =
     (a, case current_app a ctx of
           Inl e \<Rightarrow> Inl e
         | Inr a' \<Rightarrow> render_template_string template)"

text \<open>
  The view for static files, \<open>send_static_file\<close>. The repository has no folder
  \<open>static\<close> beside main.py, so no file name is found there.
\<close>

definition send_static_file :: "flask \<Rightarrow> call_context \<Rightarrow> flask \<times> (exception + string)" where
  "send_static_file a ctx = (a, Inl (HTTPException NotFound))"

fun call_view :: "view_func \<Rightarrow> flask \<Rightarrow> call_context \<Rightarrow> flask \<times> (exception + string)" where
  "call_view View_static a ctx = send_static_file a ctx"
| "call_view View_home a ctx = home a ctx"

text \<open>The module-level \<open>app\<close>, for a given value of \<open>__name__\<close>.\<close>

definition app :: "string \<Rightarrow> flask" where
  "app name = route ''/'' ''home'' View_home (Flask name)"

subsection \<open>Serving a request\<close>

text \<open>
  The path that is matched: a non-empty path with its leading slashes replaced by one.
\<close>

definition path_part :: "string \<Rightarrow> string" where
  "path_part path_info =
     (if path_info = [] then []
      else CHR ''/'' # dropWhile (\<lambda>c. c = CHR ''/'') path_info)"

text \<open>
  A rule is either a fixed path or a fixed path followed by the path converter, which
  stands for a non-empty rest that does not start with a slash.
\<close>

definition path_converter :: string where
  "path_converter = ''<path:filename>''"

definition rule_matches :: "rule \<Rightarrow> string \<Rightarrow> bool" where
  "rule_matches ru p =
     (if suffix path_converter (rule_path ru)
      then (let static_part = take (length (rule_path ru) - length path_converter) (rule_path ru)
            in prefix static_part p \<and>
               (case drop (length static_part) p of
                  [] \<Rightarrow> False
                | c # cs \<Rightarrow> c \<noteq> CHR ''/''))
      else rule_path ru = p)"

text \<open>A rule that ends with a slash asks for a redirect when the path lacks just that
  slash and the method is one of the rule's.\<close>

definition slash_required :: "rule \<Rightarrow> string \<Rightarrow> string \<Rightarrow> bool" where
  "slash_required ru m p = (rule_path ru = p @ ''/'' \<and> m \<in> methods ru)"

text \<open>
  One pass over the rules: the first rule whose path and methods fit wins; a rule that
  fits the path only contributes its methods to \<open>have_match_for\<close>.
\<close>

fun match_rules :: "rule list \<Rightarrow> string \<Rightarrow> string \<Rightarrow> string set \<Rightarrow> string set + rule" where
  "match_rules [] m p have_match_for = Inl have_match_for"
| "match_rules (ru # rus) m p have_match_for =
     (if rule_matches ru p
      then (if m \<in> methods ru then Inr ru
            else match_rules rus m p (have_match_for \<union> methods ru))
      else match_rules rus m p have_match_for)"

datatype matching = Matched rule | Slash_Required | No_Match "string set"

definition state_match :: "rule list \<Rightarrow> string \<Rightarrow> string \<Rightarrow> string set \<Rightarrow> matching" where
  "state_match rus m p have_match_for =
     (case match_rules rus m p have_match_for of
        Inr ru \<Rightarrow> Matched ru
      | Inl have_match_for' \<Rightarrow>
          if list_ex (\<lambda>ru. slash_required ru m p) rus then Slash_Required
          else No_Match have_match_for')"

text \<open>Doubled slashes are merged by replacing, from the left, each pair of slashes by
  one.\<close>

fun merge_slashes :: "string \<Rightarrow> string" where
  "merge_slashes (c # d # cs) =
     (if c = CHR ''/'' \<and> d = CHR ''/'' then CHR ''/'' # merge_slashes cs
      else c # merge_slashes (d # cs))"
| "merge_slashes cs = cs"

definition no_match :: "string set \<Rightarrow> http_exception" where
  "no_match have_match_for =
     (if have_match_for = {} then NotFound else MethodNotAllowed have_match_for)"

text \<open>
  Matching (Werkzeug's \<open>MapAdapter.match\<close>): the path is matched as it is; when that
  finds nothing it is matched again with its slashes merged, and a rule found then is
  answered with a redirect to the merged path. With no rule either way the answer is 405
  if some rule fits the path but not the method, and 404 otherwise.
\<close>

definition match_request :: "rule list \<Rightarrow> string \<Rightarrow> string \<Rightarrow> http_exception + rule" where
  "match_request rus m path_info =
     (let p = path_part path_info
      in case state_match rus m p {} of
           Matched ru \<Rightarrow> Inr ru
         | Slash_Required \<Rightarrow> Inl (RequestRedirect (p @ ''/''))
         | No_Match have_match_for \<Rightarrow>
             (let q = merge_slashes p
              in case state_match rus m q have_match_for of
                   Matched ru \<Rightarrow> Inl (RequestRedirect q)
                 | Slash_Required \<Rightarrow> Inl (RequestRedirect (q @ ''/''))
                 | No_Match have_match_for' \<Rightarrow> Inl (no_match have_match_for')))"

text \<open>What \<open>dispatch_request\<close> decides to do with a request.\<close>

datatype target =
    Routing_Exception http_exception
  | Default_Options "string set"
  | View string

definition resolve :: "flask \<Rightarrow> request \<Rightarrow> target" where
  "resolve a r =
     (case match_request (url_map a) (request_method r) (path r) of
        Inl e \<Rightarrow> Routing_Exception e
      | Inr ru \<Rightarrow>
          if provide_automatic_options ru \<and> request_method r = ''OPTIONS''
          then Default_Options (methods ru)
          else View (endpoint ru))"

text \<open>An HTTP exception raised by a view is answered as such, any other exception with
  the internal server error.\<close>

fun handle_user_exception :: "exception \<Rightarrow> http_exception" where
  "handle_user_exception (HTTPException e) = e"
| "handle_user_exception RuntimeError = InternalServerError"
| "handle_user_exception Template_Syntax_Not_Modelled = InternalServerError"

text \<open>A string returned by a view becomes a response with the defaults of the
  response class.\<close>

definition make_response :: "string \<Rightarrow> response" where
  "make_response body = \<lparr>status = 200, mimetype = ''text/html'', allow = {}, data = body\<rparr>"

definition make_default_options_response :: "string set \<Rightarrow> response" where
  "make_default_options_response ms =
     \<lparr>status = 200, mimetype = ''text/html'', allow = ms, data = []\<rparr>"

definition full_dispatch_request :: "flask \<Rightarrow> request \<Rightarrow> flask \<times> reply" where
  "full_dispatch_request a r =
     (case resolve a r of
        Routing_Exception e \<Rightarrow> (a, Error_Page e)
      | Default_Options ms \<Rightarrow> (a, Response (make_default_options_response ms))
      | View ep \<Rightarrow>
          (case view_functions a ep of
             None \<Rightarrow> (a, Error_Page InternalServerError)
           | Some f \<Rightarrow>
               (case call_view f a (Request_Context r) of
                  (a', Inl e) \<Rightarrow> (a', Error_Page (handle_user_exception e))
                | (a', Inr body) \<Rightarrow> (a', Response (make_response body)))))"

text \<open>The answer to a HEAD request is sent without its body.\<close>

fun without_body :: "reply \<Rightarrow> reply" where
  "without_body (Response resp) = Response (resp\<lparr>data := []\<rparr>)"
| "without_body (Error_Page e) = Error_Page e"

definition wsgi_app :: "flask \<Rightarrow> request \<Rightarrow> flask \<times> reply" where
  "wsgi_app a r =
     (case full_dispatch_request a r of
        (a', rep) \<Rightarrow> (a', if request_method r = ''HEAD'' then without_body rep else rep))"

text \<open>Serving requests one after the other, each on the application object that the
  one before left behind.\<close>

fun serve_all :: "flask \<Rightarrow> request list \<Rightarrow> flask \<times> reply list" where
  "serve_all a [] = (a, [])"
| "serve_all a (r # rs) =
     (case wsgi_app a r of
        (a', rep) \<Rightarrow> (case serve_all a' rs of (a'', reps) \<Rightarrow> (a'', rep # reps)))"

subsection \<open>Sample requests\<close>

definition get_root :: request where
  "get_root = \<lparr>request_method = ''GET'', path = ''/'', query_string = [], headers = []\<rparr>"

definition get_root_query :: request where
  "get_root_query = \<lparr>request_method = ''GET'', path = ''/'', query_string = ''q=1'',
     headers = [(''Accept'', ''*/*'')]\<rparr>"

definition head_root :: request where
  "head_root = \<lparr>request_method = ''HEAD'', path = ''/'', query_string = [], headers = []\<rparr>"

definition post_root :: request where
  "post_root = \<lparr>request_method = ''POST'', path = ''/'', query_string = [], headers = []\<rparr>"

definition post_static :: request where
  "post_static = \<lparr>request_method = ''POST'', path = ''/static/x'', query_string = [],
     headers = []\<rparr>"

definition get_double_slash :: request where
  "get_double_slash = \<lparr>request_method = ''GET'', path = ''//'', query_string = [],
     headers = []\<rparr>"

definition get_empty_path :: request where
  "get_empty_path = \<lparr>request_method = ''GET'', path = [], query_string = [],
     headers = []\<rparr>"

definition get_nope :: request where
  "get_nope = \<lparr>request_method = ''GET'', path = ''/nope'', query_string = [], headers = []\<rparr>"

section \<open>Properties\<close>

subsection \<open>Rendering and the view function\<close>

lemma preprocess_template: "preprocess template = template"
  by (simp add: preprocess_def template_def LF_def CR_def)

lemma template_plain: "\<not> uses_template_syntax template"
  by (simp add: uses_template_syntax_def template_def LF_def sublist_code)

lemma render_template: "render_template_string template = Inr template"
  by (simp add: render_template_string_def template_plain preprocess_template)

lemma home_request: "home a (Request_Context r) = (a, Inr template)"
  by (simp add: home_def render_template)

lemma home_in_context: "ctx \<noteq> No_Context \<Longrightarrow> home a ctx = (a, Inr template)"
  by (cases ctx) (simp_all add: home_def render_template)

lemma home_no_context: "home a No_Context = (a, Inl RuntimeError)"
  by (simp add: home_def)

lemma call_view_unchanged: "fst (call_view f a ctx) = a"
  by (cases f) (simp_all add: home_def send_static_file_def)

subsection \<open>Routing on the module's application object\<close>

lemma url_map_app:
  "url_map (app name) =
     [\<lparr>rule_path = ''/static/<path:filename>'', endpoint = ''static'',
        methods = {''GET'', ''OPTIONS'', ''HEAD''}, provide_automatic_options = True\<rparr>,
      \<lparr>rule_path = ''/'', endpoint = ''home'',
        methods = {''GET'', ''OPTIONS'', ''HEAD''}, provide_automatic_options = True\<rparr>]"
  by (simp add: app_def route_def Flask_def add_url_rule_def insert_commute)

lemma view_functions_app: "view_functions (app name) ''home'' = Some View_home"
  by (simp add: app_def route_def Flask_def add_url_rule_def)

lemma rule_matches_root:
  "rule_matches \<lparr>rule_path = ''/'', endpoint = e, methods = ms,
     provide_automatic_options = b\<rparr> p = (p = ''/'')"
  by (auto simp add: rule_matches_def path_converter_def suffix_def)

lemma rule_matches_static:
  "rule_matches \<lparr>rule_path = ''/static/<path:filename>'', endpoint = e, methods = ms,
     provide_automatic_options = b\<rparr> p =
   (prefix ''/static/'' p \<and>
    (case drop (length ''/static/'') p of [] \<Rightarrow> False | c # cs \<Rightarrow> c \<noteq> CHR ''/''))"
proof -
  have "suffix path_converter ''/static/<path:filename>''"
    unfolding path_converter_def suffix_def by (rule exI [of _ "''/static/''"]) simp
  then show ?thesis
    by (simp add: rule_matches_def path_converter_def)
qed

lemma slash_required_root:
  "slash_required \<lparr>rule_path = ''/'', endpoint = e, methods = ms,
     provide_automatic_options = b\<rparr> m p = (p = [] \<and> m \<in> ms)"
  by (auto simp add: slash_required_def append_eq_Cons_conv)

lemma slash_required_static:
  "\<not> slash_required \<lparr>rule_path = ''/static/<path:filename>'', endpoint = e, methods = ms,
     provide_automatic_options = b\<rparr> m p"
proof
  assume "slash_required \<lparr>rule_path = ''/static/<path:filename>'', endpoint = e,
    methods = ms, provide_automatic_options = b\<rparr> m p"
  then have "''/static/<path:filename>'' = p @ ''/''"
    by (simp add: slash_required_def)
  then have "last ''/static/<path:filename>'' = last (p @ ''/'')"
    by (rule arg_cong)
  then show False by simp
qed

lemma state_match_root:
  "state_match (url_map (app name)) m ''/'' have_match_for =
     (if m \<in> {''GET'', ''OPTIONS'', ''HEAD''}
      then Matched \<lparr>rule_path = ''/'', endpoint = ''home'',
             methods = {''GET'', ''OPTIONS'', ''HEAD''}, provide_automatic_options = True\<rparr>
      else No_Match (have_match_for \<union> {''GET'', ''OPTIONS'', ''HEAD''}))"
  by (simp add: state_match_def url_map_app rule_matches_root rule_matches_static
      slash_required_root slash_required_static)

lemma state_match_other:
  assumes "p \<noteq> []" and "p \<noteq> ''/''" and "\<not> prefix ''/static/'' p"
  shows "state_match (url_map (app name)) m p have_match_for = No_Match have_match_for"
  using assms
  by (simp add: state_match_def url_map_app rule_matches_root rule_matches_static
      slash_required_root slash_required_static)

lemma match_request_root:
  "match_request (url_map (app name)) m ''/'' =
     (if m \<in> {''GET'', ''OPTIONS'', ''HEAD''}
      then Inr \<lparr>rule_path = ''/'', endpoint = ''home'',
             methods = {''GET'', ''OPTIONS'', ''HEAD''}, provide_automatic_options = True\<rparr>
      else Inl (MethodNotAllowed {''GET'', ''OPTIONS'', ''HEAD''}))"
  by (simp add: match_request_def path_part_def state_match_root no_match_def)

lemma merge_slashes_no_slash:
  "c \<noteq> CHR ''/'' \<Longrightarrow> merge_slashes (c # cs) = c # merge_slashes cs"
  by (cases cs) simp_all

lemma merge_slashes_hd:
  "prefix ''/'' (merge_slashes r) \<Longrightarrow> prefix ''/'' r"
proof (cases r)
  case Nil
  assume "prefix ''/'' (merge_slashes r)"
  with Nil show ?thesis by simp
next
  case (Cons y r')
  assume a: "prefix ''/'' (merge_slashes r)"
  show ?thesis
  proof (cases "y = CHR ''/''")
    case True
    with Cons show ?thesis by simp
  next
    case False
    with Cons a show ?thesis by (simp add: merge_slashes_no_slash)
  qed
qed

lemma merge_slashes_prefix:
  assumes "CHR ''/'' \<notin> set w" and "prefix (w @ ''/'') (merge_slashes r)"
  shows "prefix (w @ ''/'') r"
  using assms
proof (induction w arbitrary: r)
  case Nil
  then show ?case by (simp add: merge_slashes_hd)
next
  case (Cons x w)
  from Cons.prems have x: "x \<noteq> CHR ''/''" and w: "CHR ''/'' \<notin> set w" by auto
  show ?case
  proof (cases r)
    case Nil
    with Cons.prems show ?thesis by simp
  next
    case r: (Cons y r')
    have y: "y \<noteq> CHR ''/''"
    proof
      assume "y = CHR ''/''"
      then have "prefix ''/'' (merge_slashes r)"
        using r by (cases r') simp_all
      with Cons.prems(2) x show False
        by (cases "merge_slashes r") simp_all
    qed
    then have m: "merge_slashes r = y # merge_slashes r'"
      using r by (simp add: merge_slashes_no_slash)
    from Cons.prems(2) have "prefix (x # (w @ ''/'')) (y # merge_slashes r')"
      unfolding m by simp
    then have "y = x" and "prefix (w @ ''/'') (merge_slashes r')"
      by simp_all
    with Cons.IH [OF w] r show ?thesis by simp
  qed
qed

lemma path_part_shape:
  assumes "path_info \<noteq> []"
  shows "\<exists>r. path_part path_info = CHR ''/'' # r \<and> \<not> prefix ''/'' r"
proof -
  let ?r = "dropWhile (\<lambda>c. c = CHR ''/'') path_info"
  have "\<not> prefix ''/'' ?r"
  proof (cases ?r)
    case Nil
    show ?thesis unfolding Nil by simp
  next
    case (Cons c cs)
    with hd_dropWhile [of "\<lambda>c. c = CHR ''/''" path_info] have "c \<noteq> CHR ''/''"
      by simp
    show ?thesis unfolding Cons using \<open>c \<noteq> CHR ''/''\<close> by simp
  qed
  with assms show ?thesis by (simp add: path_part_def)
qed

lemma merged_other:
  assumes p: "p = CHR ''/'' # r" and r: "\<not> prefix ''/'' r"
    and "p \<noteq> ''/''" and "\<not> prefix ''/static/'' p"
  shows "merge_slashes p \<noteq> []" and "merge_slashes p \<noteq> ''/''"
    and "\<not> prefix ''/static/'' (merge_slashes p)"
proof -
  from assms(1,3) have "r \<noteq> []" by auto
  then obtain c cs where rc: "r = c # cs" by (cases r) auto
  with r have c: "c \<noteq> CHR ''/''" by simp
  have m: "merge_slashes p = CHR ''/'' # c # merge_slashes cs"
    unfolding p rc using c by (simp add: merge_slashes_no_slash)
  show "merge_slashes p \<noteq> []" and "merge_slashes p \<noteq> ''/''"
    unfolding m by simp_all
  show "\<not> prefix ''/static/'' (merge_slashes p)"
  proof
    assume "prefix ''/static/'' (merge_slashes p)"
    moreover have "merge_slashes p = CHR ''/'' # merge_slashes r"
      unfolding m rc using c by (simp add: merge_slashes_no_slash)
    ultimately have "prefix (''static'' @ ''/'') (merge_slashes r)" by simp
    then have "prefix (''static'' @ ''/'') r"
      by (rule merge_slashes_prefix [rotated]) simp
    then have "prefix ''/static/'' p" unfolding p by simp
    with assms(4) show False by simp
  qed
qed

lemma match_request_other:
  assumes "path_info \<noteq> []" and "path_part path_info \<noteq> ''/''"
    and "\<not> prefix ''/static/'' (path_part path_info)"
  shows "match_request (url_map (app name)) m path_info = Inl NotFound"
proof -
  define p where "p = path_part path_info"
  define q where "q = merge_slashes p"
  from path_part_shape [OF assms(1)] obtain r
    where p: "p = CHR ''/'' # r" and r: "\<not> prefix ''/'' r"
    unfolding p_def by blast
  from p have ne: "p \<noteq> []" by simp
  from assms(2,3) have p2: "p \<noteq> ''/''" and p3: "\<not> prefix ''/static/'' p"
    unfolding p_def by simp_all
  have q: "q \<noteq> []" "q \<noteq> ''/''" "\<not> prefix ''/static/'' q"
    unfolding q_def by (rule merged_other [OF p r p2 p3])+
  have 1: "state_match (url_map (app name)) m p {} = No_Match {}"
    by (rule state_match_other [OF ne p2 p3])
  have 2: "state_match (url_map (app name)) m q {} = No_Match {}"
    by (rule state_match_other [OF q])
  have "match_request (url_map (app name)) m path_info =
      (case state_match (url_map (app name)) m p {} of
         Matched ru \<Rightarrow> Inr ru
       | Slash_Required \<Rightarrow> Inl (RequestRedirect (p @ ''/''))
       | No_Match have_match_for \<Rightarrow>
           (case state_match (url_map (app name)) m q have_match_for of
              Matched ru \<Rightarrow> Inl (RequestRedirect q)
            | Slash_Required \<Rightarrow> Inl (RequestRedirect (q @ ''/''))
            | No_Match have_match_for' \<Rightarrow> Inl (no_match have_match_for')))"
    unfolding match_request_def Let_def p_def q_def ..
  also have "\<dots> = Inl (no_match {})"
    unfolding 1 matching.case 2 ..
  finally show ?thesis by (simp add: no_match_def)
qed

lemma match_request_path_part:
  "path_part path_info = path_part path_info' \<Longrightarrow>
   match_request rus m path_info = match_request rus m path_info'"
  by (simp add: match_request_def)

lemma resolve_root:
  assumes "path_part (path r) = ''/''"
  shows "resolve (app name) r =
     (if request_method r \<in> {''GET'', ''OPTIONS'', ''HEAD''}
      then (if request_method r = ''OPTIONS''
            then Default_Options {''GET'', ''OPTIONS'', ''HEAD''} else View ''home'')
      else Routing_Exception (MethodNotAllowed {''GET'', ''OPTIONS'', ''HEAD''}))"
proof -
  have "path_part (path r) = path_part ''/''"
    using assms by (simp add: path_part_def)
  then have "match_request (url_map (app name)) (request_method r) (path r) =
      match_request (url_map (app name)) (request_method r) ''/''"
    by (rule match_request_path_part)
  then show ?thesis
    by (simp add: resolve_def match_request_root)
qed

lemma wsgi_get_root:
  assumes "request_method r = ''GET''" and "path r = ''/''"
  shows "wsgi_app (app name) r = (app name, Response (make_response template))"
proof -
  from assms(2) have "path_part (path r) = ''/''" by (simp add: path_part_def)
  from resolve_root [OF this, of name] assms(1) show ?thesis
    by (simp add: wsgi_app_def full_dispatch_request_def view_functions_app home_request)
qed

lemma wsgi_other_method:
  assumes "path r = ''/''" and "request_method r \<notin> {''GET'', ''HEAD'', ''OPTIONS''}"
  shows "wsgi_app (app name) r =
    (app name, Error_Page (MethodNotAllowed {''GET'', ''OPTIONS'', ''HEAD''}))"
proof -
  from assms(1) have "path_part (path r) = ''/''" by (simp add: path_part_def)
  from resolve_root [OF this, of name] assms(2) show ?thesis
    by (simp add: wsgi_app_def full_dispatch_request_def)
qed

lemma wsgi_other_path:
  assumes "path r \<noteq> []" and "path_part (path r) \<noteq> ''/''"
    and "\<not> prefix ''/static/'' (path_part (path r))"
  shows "wsgi_app (app name) r = (app name, Error_Page NotFound)"
  using match_request_other [OF assms, of name "request_method r"]
  by (simp add: wsgi_app_def full_dispatch_request_def resolve_def)

text \<open>Three requests outside the rule of the module.\<close>

lemma wsgi_post_static:
  "snd (wsgi_app (app name) post_static) =
     Error_Page (MethodNotAllowed {''GET'', ''OPTIONS'', ''HEAD''})"
proof -
  have s: "state_match (url_map (app name)) ''POST'' ''/static/x'' have_match_for =
      No_Match (have_match_for \<union> {''GET'', ''OPTIONS'', ''HEAD''})" for have_match_for
    by (simp add: state_match_def url_map_app rule_matches_root rule_matches_static
        slash_required_root slash_required_static)
  have "match_request (url_map (app name)) ''POST'' ''/static/x'' =
      Inl (MethodNotAllowed {''GET'', ''OPTIONS'', ''HEAD''})"
    by (simp add: match_request_def path_part_def s no_match_def)
  then show ?thesis
    by (simp add: post_static_def wsgi_app_def full_dispatch_request_def resolve_def)
qed

lemma wsgi_get_double_slash:
  "snd (wsgi_app (app name) get_double_slash) = Response (make_response template)"
proof -
  have "path_part (path get_double_slash) = ''/''"
    by (simp add: get_double_slash_def path_part_def)
  from resolve_root [OF this, of name] show ?thesis
    by (simp add: get_double_slash_def wsgi_app_def full_dispatch_request_def
        view_functions_app home_request)
qed

lemma wsgi_get_empty_path:
  "snd (wsgi_app (app name) get_empty_path) = Error_Page (RequestRedirect ''/'')"
proof -
  have "state_match (url_map (app name)) ''GET'' [] {} = Slash_Required"
    by (simp add: state_match_def url_map_app rule_matches_root rule_matches_static
        slash_required_root slash_required_static)
  then have "match_request (url_map (app name)) ''GET'' [] = Inl (RequestRedirect ''/'')"
    by (simp add: match_request_def path_part_def)
  then show ?thesis
    by (simp add: get_empty_path_def wsgi_app_def full_dispatch_request_def resolve_def)
qed

subsection \<open>Serving leaves the application object alone\<close>

text \<open>These hold for every application object, whatever its rules and configuration:
  each view function there is hands the object back as it got it.\<close>

lemma full_dispatch_unchanged: "fst (full_dispatch_request a r) = a"
proof (cases "resolve a r")
  case (Routing_Exception e)
  then show ?thesis by (simp add: full_dispatch_request_def)
next
  case (Default_Options ms)
  then show ?thesis by (simp add: full_dispatch_request_def)
next
  case (View ep)
  show ?thesis
  proof (cases "view_functions a ep")
    case None
    with View show ?thesis by (simp add: full_dispatch_request_def)
  next
    case (Some f)
    obtain a' res where c: "call_view f a (Request_Context r) = (a', res)"
      by (cases "call_view f a (Request_Context r)")
    with call_view_unchanged [of f a "Request_Context r"] have "a' = a" by simp
    with View Some c show ?thesis
      by (cases res) (simp_all add: full_dispatch_request_def)
  qed
qed

lemma wsgi_app_unchanged: "fst (wsgi_app a r) = a"
proof -
  obtain a' rep where d: "full_dispatch_request a r = (a', rep)"
    by (cases "full_dispatch_request a r")
  with full_dispatch_unchanged [of a r] have "a' = a" by simp
  with d show ?thesis by (simp add: wsgi_app_def)
qed

lemma serve_all_unchanged: "fst (serve_all a rs) = a"
proof (induction rs arbitrary: a)
  case Nil
  show ?case by simp
next
  case (Cons r rs)
  obtain a' rep where w: "wsgi_app a r = (a', rep)" by (cases "wsgi_app a r")
  with wsgi_app_unchanged [of a r] have "a' = a" by simp
  obtain a'' reps where s: "serve_all a rs = (a'', reps)" by (cases "serve_all a rs")
  with Cons.IH [of a] have "a'' = a" by simp
  with w s \<open>a' = a\<close> show ?case by simp
qed

lemma serve_all_replies: "snd (serve_all a rs) = map (\<lambda>r. snd (wsgi_app a r)) rs"
proof (induction rs)
  case Nil
  show ?case by simp
next
  case (Cons r rs)
  obtain a' rep where w: "wsgi_app a r = (a', rep)" by (cases "wsgi_app a r")
  with wsgi_app_unchanged [of a r] have "a' = a" by simp
  obtain a'' reps where s: "serve_all a rs = (a'', reps)" by (cases "serve_all a rs")
  with Cons.IH have "reps = map (\<lambda>r. snd (wsgi_app a r)) rs" by simp
  with w s \<open>a' = a\<close> show ?case by simp
qed

subsection \<open>The claims\<close>

text \<open>
  C1. Every GET request for the path \<open>/\<close> is answered with status 200 and the HTML page
  of \<open>home\<close> as body, whatever its query string and headers.
\<close>

theorem get_root_returns_page:
  assumes "request_method r = ''GET''" and "path r = ''/''"
  shows "status_code (snd (wsgi_app (app name) r)) = 200 \<and>
    snd (wsgi_app (app name) r) =
      Response \<lparr>status = 200, mimetype = ''text/html'', allow = {}, data = template\<rparr>"
  using wsgi_get_root [OF assms, of name] by (simp add: make_response_def)

theorem get_root_returns_page_witness:
  "request_method get_root = ''GET'' \<and> path get_root = ''/'' \<and>
   status_code (snd (wsgi_app (app ''__main__'') get_root)) = 200 \<and>
   snd (wsgi_app (app ''__main__'') get_root) =
     Response \<lparr>status = 200, mimetype = ''text/html'', allow = {}, data = template\<rparr>"
proof -
  have m: "request_method get_root = ''GET''" and p: "path get_root = ''/''"
    by (simp_all add: get_root_def)
  from get_root_returns_page [OF m p, of "''__main__''"] m p show ?thesis by simp
qed

text \<open>
  C2. The body of the answer to a GET request for \<open>/\<close> contains the title
  "Social Contract App" and the paragraph text "Build your features here.".
\<close>

theorem get_root_body_contains:
  assumes "request_method r = ''GET''" and "path r = ''/''"
  shows "\<exists>resp. snd (wsgi_app (app name) r) = Response resp \<and>
    sublist ''Social Contract App'' (data resp) \<and>
    sublist ''Build your features here.'' (data resp)"
proof -
  have t: "sublist ''Social Contract App'' template"
    by (simp add: template_def LF_def sublist_code)
  have b: "sublist ''Build your features here.'' template"
    by (simp add: template_def LF_def sublist_code)
  from wsgi_get_root [OF assms, of name] t b show ?thesis
    by (simp add: make_response_def)
qed

theorem get_root_body_contains_witness:
  "request_method get_root_query = ''GET'' \<and> path get_root_query = ''/'' \<and>
   (\<exists>resp. snd (wsgi_app (app ''__main__'') get_root_query) = Response resp \<and>
     sublist ''Social Contract App'' (data resp) \<and>
     sublist ''Build your features here.'' (data resp))"
proof -
  have m: "request_method get_root_query = ''GET''" and p: "path get_root_query = ''/''"
    by (simp_all add: get_root_query_def)
  from get_root_body_contains [OF m p, of "''__main__''"] m p show ?thesis by simp
qed

text \<open>
  C3. The answer to a GET request for \<open>/\<close> has the media type text/html, and its
  Content-Type header says so.
\<close>

theorem get_root_content_type:
  assumes "request_method r = ''GET''" and "path r = ''/''"
  shows "\<exists>resp. snd (wsgi_app (app name) r) = Response resp \<and>
    mimetype resp = ''text/html'' \<and>
    content_type resp = ''text/html; charset=utf-8'' \<and>
    prefix ''text/html'' (content_type resp)"
  using wsgi_get_root [OF assms, of name]
  by (simp add: make_response_def content_type_def)

theorem get_root_content_type_witness:
  "request_method get_root = ''GET'' \<and> path get_root = ''/'' \<and>
   (\<exists>resp. snd (wsgi_app (app ''main'') get_root) = Response resp \<and>
     mimetype resp = ''text/html'' \<and>
     content_type resp = ''text/html; charset=utf-8'' \<and>
     prefix ''text/html'' (content_type resp))"
proof -
  have m: "request_method get_root = ''GET''" and p: "path get_root = ''/''"
    by (simp_all add: get_root_def)
  from get_root_content_type [OF m p, of "''main''"] m p show ?thesis by simp
qed

text \<open>
  C4, as stated: a request for any path other than \<open>/\<close> is answered with 404. This
  fails: the application object also carries the rule for static files, so a POST request
  for \<open>/static/x\<close> is answered with 405; leading slashes are reduced to one before
  matching, so a GET request for \<open>//\<close> is answered with the page; and a GET request
  with the empty path is redirected to \<open>/\<close> with 308.
\<close>

theorem other_path_counterexample:
  "path post_static \<noteq> ''/'' \<and>
   status_code (snd (wsgi_app (app ''__main__'') post_static)) = 405 \<and>
   path get_double_slash \<noteq> ''/'' \<and>
   snd (wsgi_app (app ''__main__'') get_double_slash) =
     Response \<lparr>status = 200, mimetype = ''text/html'', allow = {}, data = template\<rparr> \<and>
   path get_empty_path \<noteq> ''/'' \<and>
   status_code (snd (wsgi_app (app ''__main__'') get_empty_path)) = 308"
  by (simp add: wsgi_post_static wsgi_get_double_slash wsgi_get_empty_path
      make_response_def)
    (simp add: post_static_def get_double_slash_def get_empty_path_def)

text \<open>
  C4, amended: a request whose path is not empty and, with its leading slashes reduced to
  one, is neither \<open>/\<close> nor begins with \<open>/static/\<close> matches no rule and is answered
  with the not-found error, status 404, whatever its method.
\<close>

theorem unregistered_path_not_found:
  assumes "path r \<noteq> []" and "path_part (path r) \<noteq> ''/''"
    and "\<not> prefix ''/static/'' (path_part (path r))"
  shows "snd (wsgi_app (app name) r) = Error_Page NotFound \<and>
    status_code (snd (wsgi_app (app name) r)) = 404"
  using wsgi_other_path [OF assms, of name] by simp

theorem unregistered_path_not_found_witness:
  "path get_nope \<noteq> [] \<and> path_part (path get_nope) \<noteq> ''/'' \<and>
   \<not> prefix ''/static/'' (path_part (path get_nope)) \<and>
   snd (wsgi_app (app ''__main__'') get_nope) = Error_Page NotFound \<and>
   status_code (snd (wsgi_app (app ''__main__'') get_nope)) = 404"
proof -
  have e: "path get_nope \<noteq> []" and p: "path_part (path get_nope) \<noteq> ''/''"
    and s: "\<not> prefix ''/static/'' (path_part (path get_nope))"
    by (simp_all add: get_nope_def path_part_def)
  from unregistered_path_not_found [OF e p s, of "''__main__''"] e p s
  show ?thesis by blast
qed

text \<open>
  C5, as stated: a request for \<open>/\<close> with a method other than GET does not reach the
  registered handler and gets the default answer, typically 404. This fails: a HEAD
  request for \<open>/\<close> is routed to \<open>home\<close> and answered with 200, and a POST request
  for \<open>/\<close> is answered with 405, not 404.
\<close>

theorem non_get_root_counterexample:
  "request_method head_root \<noteq> ''GET'' \<and> path head_root = ''/'' \<and>
   resolve (app ''__main__'') head_root = View ''home'' \<and>
   view_functions (app ''__main__'') ''home'' = Some View_home \<and>
   status_code (snd (wsgi_app (app ''__main__'') head_root)) = 200 \<and>
   request_method post_root \<noteq> ''GET'' \<and> path post_root = ''/'' \<and>
   status_code (snd (wsgi_app (app ''__main__'') post_root)) = 405"
  by (simp add: head_root_def post_root_def wsgi_app_def full_dispatch_request_def
      resolve_root path_part_def view_functions_app home_request make_response_def)

text \<open>
  C5, amended: a request for \<open>/\<close> whose method is none of GET, HEAD and OPTIONS does
  not reach the registered handler; routing ends in the method-not-allowed error, and the
  answer is the default page for it, status 405.
\<close>

theorem other_method_not_allowed:
  assumes "path r = ''/''" and "request_method r \<notin> {''GET'', ''HEAD'', ''OPTIONS''}"
  shows "resolve (app name) r =
      Routing_Exception (MethodNotAllowed {''GET'', ''OPTIONS'', ''HEAD''}) \<and>
    snd (wsgi_app (app name) r) =
      Error_Page (MethodNotAllowed {''GET'', ''OPTIONS'', ''HEAD''}) \<and>
    status_code (snd (wsgi_app (app name) r)) = 405"
proof -
  from assms(1) have "path_part (path r) = ''/''" by (simp add: path_part_def)
  from resolve_root [OF this, of name] assms(2) wsgi_other_method [OF assms, of name]
  show ?thesis by simp
qed

theorem other_method_not_allowed_witness:
  "path post_root = ''/'' \<and> request_method post_root \<notin> {''GET'', ''HEAD'', ''OPTIONS''} \<and>
   resolve (app ''__main__'') post_root =
     Routing_Exception (MethodNotAllowed {''GET'', ''OPTIONS'', ''HEAD''}) \<and>
   snd (wsgi_app (app ''__main__'') post_root) =
     Error_Page (MethodNotAllowed {''GET'', ''OPTIONS'', ''HEAD''}) \<and>
   status_code (snd (wsgi_app (app ''__main__'') post_root)) = 405"
proof -
  have p: "path post_root = ''/''"
    and m: "request_method post_root \<notin> {''GET'', ''HEAD'', ''OPTIONS''}"
    by (simp_all add: post_root_def)
  from other_method_not_allowed [OF p m, of "''__main__''"] p m show ?thesis by simp
qed

text \<open>
  C6. Any two GET requests for \<open>/\<close> get the same answer, with the literal of \<open>home\<close>
  as body, whatever their query strings and headers and whatever requests were served
  before each of them.
\<close>

theorem home_input_independent:
  assumes "request_method r1 = ''GET''" and "path r1 = ''/''"
    and "request_method r2 = ''GET''" and "path r2 = ''/''"
  shows "snd (wsgi_app (fst (serve_all (app name) rs1)) r1) =
      snd (wsgi_app (fst (serve_all (app name) rs2)) r2) \<and>
    (\<exists>resp. snd (wsgi_app (fst (serve_all (app name) rs1)) r1) = Response resp \<and>
      data resp = template)"
  using wsgi_get_root [OF assms(1,2), of name] wsgi_get_root [OF assms(3,4), of name]
  by (simp add: serve_all_unchanged make_response_def)

theorem home_input_independent_witness:
  "request_method get_root = ''GET'' \<and> path get_root = ''/'' \<and>
   request_method get_root_query = ''GET'' \<and> path get_root_query = ''/'' \<and>
   snd (wsgi_app (fst (serve_all (app ''__main__'') [post_root, get_nope])) get_root) =
     snd (wsgi_app (fst (serve_all (app ''__main__'') [])) get_root_query) \<and>
   (\<exists>resp. snd (wsgi_app (fst (serve_all (app ''__main__'') [post_root, get_nope]))
       get_root) = Response resp \<and> data resp = template)"
proof -
  have m1: "request_method get_root = ''GET''" and p1: "path get_root = ''/''"
    by (simp_all add: get_root_def)
  have m2: "request_method get_root_query = ''GET''" and p2: "path get_root_query = ''/''"
    by (simp_all add: get_root_query_def)
  from home_input_independent [OF m1 p1 m2 p2, of "''__main__''" "[post_root, get_nope]" "[]"]
    m1 p1 m2 p2
  show ?thesis by blast
qed

text \<open>
  C8. Serving any sequence of requests leaves the application object, its rules, view
  functions and configuration, as it was before the first of them, and every request is
  answered as it would be if it were the first: nothing is carried from one request to
  the next.
\<close>

theorem serving_keeps_app:
  "serve_all a rs = (a, map (\<lambda>r. snd (wsgi_app a r)) rs)"
  using serve_all_unchanged [of a rs] serve_all_replies [of a rs]
  by (cases "serve_all a rs") simp

text \<open>
  C9. The literal of \<open>home\<close> contains no template delimiter, rendering it yields the
  literal itself, with the line end it starts with and the blanks of every line, and
  that string is the body of the answer to a GET request for \<open>/\<close>.
\<close>

theorem rendering_is_identity:
  "\<not> uses_template_syntax template \<and>
   render_template_string template = Inr template \<and>
   take 9 template = LF # ''        '' \<and>
   snd (wsgi_app (app name)
       \<lparr>request_method = ''GET'', path = ''/'', query_string = q, headers = hs\<rparr>) =
     Response \<lparr>status = 200, mimetype = ''text/html'', allow = {}, data = template\<rparr>"
proof -
  have "take 9 template = LF # ''        ''"
    by (simp add: template_def)
  moreover have "snd (wsgi_app (app name)
       \<lparr>request_method = ''GET'', path = ''/'', query_string = q, headers = hs\<rparr>) =
     Response \<lparr>status = 200, mimetype = ''text/html'', allow = {}, data = template\<rparr>"
    by (simp add: wsgi_get_root make_response_def)
  ultimately show ?thesis
    by (simp add: template_plain render_template)
qed

text \<open>
  C10, as stated: \<open>home\<close> returns a string on every invocation and never raises. This
  fails for a call outside an application context: \<open>render_template_string\<close> asks for
  the current application, finds none and raises RuntimeError.
\<close>

theorem home_counterexample:
  "home (app ''__main__'') No_Context = (app ''__main__'', Inl RuntimeError)"
  by (simp add: home_no_context)

text \<open>
  C10, amended: on every invocation inside an application context, as every call by the
  dispatcher is, \<open>home\<close> returns normally: it returns the same string whatever the
  application object and the context are, it does not look at the request, and it hands
  the application object back unchanged.
\<close>

theorem home_total_in_context:
  assumes "ctx \<noteq> No_Context"
  shows "home a ctx = (a, Inr template)"
  using assms by (rule home_in_context)

theorem home_total_in_context_witness:
  "Request_Context get_root_query \<noteq> No_Context \<and>
   home (app ''__main__'') (Request_Context get_root_query) = (app ''__main__'', Inr template)"
proof -
  have c: "Request_Context get_root_query \<noteq> No_Context" by simp
  from home_total_in_context [OF c, of "app ''__main__''"] c show ?thesis by blast
qed

end
